theory Spec2Isabelle
  imports Main "HOL-Library.Sublist"
begin

section \<open>Strings of the Go standard library used by the runner\<close>

text \<open>
  A Go string is a sequence of bytes; \<^typ>\<open>string\<close> is a list of 8-bit characters, so the
  two agree. The runner package (src/runner/runner.go) calls \<open>strings.Split\<close>,
  \<open>strings.TrimSpace\<close> and \<open>strconv.Itoa\<close>; they are modelled here on bytes.
\<close>

text \<open>
  \<open>strings.Split(s, sep)\<close> for a separator of one byte: the pieces of \<open>s\<close> between the
  occurrences of the separator. The result is never empty, so indexing it at 0 cannot panic.
\<close>

fun Split :: "string \<Rightarrow> char \<Rightarrow> string list" where
  "Split [] sep = [[]]"
| "Split (c # cs) sep =
     (if c = sep then [] # Split cs sep
      else (case Split cs sep of [] \<Rightarrow> [[c]] | p # ps \<Rightarrow> (c # p) # ps))"

text \<open>
  The UTF-8 encodings of the runes for which \<open>unicode.IsSpace\<close> holds: the ASCII white
  space, U+0085, U+00A0, U+1680, U+2000 to U+200A, U+2028, U+2029, U+202F, U+205F and U+3000.
\<close>

definition spaceRunes :: "string list" where
  "spaceRunes =
     [[CHR 0x09], [CHR 0x0A], [CHR 0x0B], [CHR 0x0C], [CHR 0x0D], [CHR 0x20],
      [CHR 0xC2, CHR 0x85], [CHR 0xC2, CHR 0xA0],
      [CHR 0xE1, CHR 0x9A, CHR 0x80],
      [CHR 0xE2, CHR 0x80, CHR 0x80], [CHR 0xE2, CHR 0x80, CHR 0x81],
      [CHR 0xE2, CHR 0x80, CHR 0x82], [CHR 0xE2, CHR 0x80, CHR 0x83],
      [CHR 0xE2, CHR 0x80, CHR 0x84], [CHR 0xE2, CHR 0x80, CHR 0x85],
      [CHR 0xE2, CHR 0x80, CHR 0x86], [CHR 0xE2, CHR 0x80, CHR 0x87],
      [CHR 0xE2, CHR 0x80, CHR 0x88], [CHR 0xE2, CHR 0x80, CHR 0x89],
      [CHR 0xE2, CHR 0x80, CHR 0x8A],
      [CHR 0xE2, CHR 0x80, CHR 0xA8], [CHR 0xE2, CHR 0x80, CHR 0xA9],
      [CHR 0xE2, CHR 0x80, CHR 0xAF],
      [CHR 0xE2, CHR 0x81, CHR 0x9F],
      [CHR 0xE3, CHR 0x80, CHR 0x80]]"

text \<open>The number of bytes of the white-space rune that \<open>s\<close> starts with, 0 when there is none.\<close>

definition leadingSpace :: "string \<Rightarrow> nat" where
  "leadingSpace s = (case find (\<lambda>p. prefix p s) spaceRunes of None \<Rightarrow> 0 | Some p \<Rightarrow> length p)"

text \<open>The same for the rune that \<open>s\<close> ends with.\<close>

definition trailingSpace :: "string \<Rightarrow> nat" where
  "trailingSpace s = (case find (\<lambda>p. suffix p s) spaceRunes of None \<Rightarrow> 0 | Some p \<Rightarrow> length p)"

function TrimLeft :: "string \<Rightarrow> string" where
  "TrimLeft s = (if leadingSpace s = 0 then s else TrimLeft (drop (leadingSpace s) s))"
  by pat_completeness auto
termination
proof (relation "measure length")
  fix s :: string
  assume "leadingSpace s \<noteq> 0"
  then obtain p where "find (\<lambda>p. prefix p s) spaceRunes = Some p" and "p \<noteq> []"
    by (auto simp: leadingSpace_def split: option.splits)
  then have "prefix p s" by (auto simp: find_Some_iff)
  with \<open>p \<noteq> []\<close> have "s \<noteq> []" by auto
  with \<open>leadingSpace s \<noteq> 0\<close> show "(drop (leadingSpace s) s, s) \<in> measure length" by simp
qed simp

function TrimRight :: "string \<Rightarrow> string" where
  "TrimRight s =
     (if trailingSpace s = 0 then s else TrimRight (take (length s - trailingSpace s) s))"
  by pat_completeness auto
termination
proof (relation "measure length")
  fix s :: string
  assume "trailingSpace s \<noteq> 0"
  then obtain p where "find (\<lambda>p. suffix p s) spaceRunes = Some p" and "p \<noteq> []"
    by (auto simp: trailingSpace_def split: option.splits)
  then have "suffix p s" by (auto simp: find_Some_iff)
  with \<open>p \<noteq> []\<close> have "s \<noteq> []" by auto
  with \<open>trailingSpace s \<noteq> 0\<close>
  show "(take (length s - trailingSpace s) s, s) \<in> measure length" by simp
qed simp

text \<open>\<open>strings.TrimSpace\<close>: all leading and trailing white space removed.\<close>

definition TrimSpace :: "string \<Rightarrow> string" where
  "TrimSpace s = TrimRight (TrimLeft s)"

text \<open>\<open>strconv.Itoa\<close>: the decimal text of an integer.\<close>

function digits :: "nat \<Rightarrow> string" where
  "digits n =
     (if n < 10 then [''0123456789'' ! n] else digits (n div 10) @ [''0123456789'' ! (n mod 10)])"
  by pat_completeness auto
termination
  by (relation "measure id") auto

definition Itoa :: "int \<Rightarrow> string" where
  "Itoa i = (if i < 0 then CHR ''-'' # digits (nat (- i)) else digits (nat i))"

section \<open>The child environment\<close>

text \<open>The constant \<open>common.GaugeInternalPortEnvName\<close> of the getgauge/common package.\<close>

definition GaugeInternalPortEnvName :: string where
  "GaugeInternalPortEnvName = ''GAUGE_INTERNAL_PORT''"

text \<open>
  The condition of the loop of \<open>getCleanEnv\<close>:
  \<^verbatim>\<open>strings.TrimSpace(strings.Split(k, "=")[0]) == common.GaugeInternalPortEnvName\<close>.
\<close>

definition isPortEntry :: "string \<Rightarrow> bool" where
  "isPortEntry k = (TrimSpace (hd (Split k CHR ''='')) = GaugeInternalPortEnvName)"

text \<open>
  One iteration of \<^verbatim>\<open>for i, k := range env\<close>: the state is the flag \<open>isPresent\<close> and
  the array behind the slice \<open>env\<close>, which the assignment \<open>env[i] = ...\<close> writes in place.
\<close>

definition getCleanEnv_step :: "string \<Rightarrow> bool \<times> string list \<Rightarrow> nat \<Rightarrow> bool \<times> string list" where
  "getCleanEnv_step port s i =
     (let k = snd s ! i in
      if isPortEntry k
      then (True, (snd s)[i := GaugeInternalPortEnvName @ ''='' @ port])
      else s)"

text \<open>
  \<open>getCleanEnv\<close> returns a pair: first what the caller's slice holds after the call (the
  loop wrote into the caller's array; \<open>append\<close> does not change the caller's slice, whose
  length stays), then the slice the function returns.
\<close>

definition getCleanEnv :: "string \<Rightarrow> string list \<Rightarrow> string list \<times> string list" where
  "getCleanEnv port env =
     (let (isPresent, env') = fold (\<lambda>i s. getCleanEnv_step port s i) [0..<length env] (False, env)
      in (env', if \<not> isPresent then env' @ [GaugeInternalPortEnvName @ ''='' @ port] else env'))"

section \<open>Data of the runner package\<close>

text \<open>
  A Go \<open>error\<close> is identified with the text its \<open>Error()\<close> method returns; the nil
  error is \<open>None\<close> of \<^typ>\<open>string option\<close>. A function that returns \<open>(value, error)\<close>
  is a sum, \<open>Inl\<close> the error. A pointer or interface that may be nil is an option.
\<close>

type_synonym error = string

text \<open>A run-time panic is a result of its own, next to returning.\<close>

datatype 'a result = Return 'a | Panic string

definition nilDereference :: string where
  "nilDereference = ''invalid memory address or nil pointer dereference''"

text \<open>The anonymous struct of the fields \<open>Run\<close> and \<open>Init\<close> of \<open>Runner\<close>.\<close>

record Commands =
  Windows :: "string list"
  Linux :: "string list"
  Darwin :: "string list"

text \<open>
  Modelled from the spec: the type \<open>version.VersionSupport\<close> is declared in package
  version, which is not among the sources; the descriptor's version-support range is an
  object with a minimum and a maximum version string.
\<close>

record VersionSupport =
  Minimum :: string
  Maximum :: string

record Runner =
  Id_r :: string
  Name :: string
  Version :: string
  Description :: string
  Run :: Commands
  Init :: Commands
  Lib :: string
  GaugeVersionSupport :: VersionSupport

text \<open>
  Of \<open>os.ProcessState\<close> the code reads the method \<open>Exited()\<close> only, of \<open>os.Process\<close>
  the field \<open>Pid\<close>, and of \<open>exec.Cmd\<close> the fields \<open>Process\<close> and \<open>ProcessState\<close>.
  \<open>ProcessState\<close> is nil until the wait for the process has returned; \<open>Exited()\<close> is true
  of a process that ended by exiting, and on Unix false of one that a signal ended.
\<close>

record ProcessState =
  Exited :: bool

record Process =
  Pid :: int

record Cmd =
  Process :: "Process option"
  ProcessState :: "ProcessState option"

text \<open>A \<open>net.Conn\<close> is known by its identity.\<close>

type_synonym Conn = nat

text \<open>A channel of errors as \<open>make\<close> creates it: its buffer capacity.\<close>

datatype chan = Chan (cap: nat)

definition make_chan :: "nat \<Rightarrow> chan" where
  "make_chan n = Chan n"

record TestRunner =
  Cmd :: "Cmd option"
  Connection :: "Conn option"
  ErrorChannel :: "chan option"

text \<open>Of \<open>manifest.Manifest\<close> the code reads the field \<open>Language\<close>.\<close>

record Manifest =
  Language :: string

datatype MessageType = Message_KillProcessRequest

record Message =
  MessageId :: int
  MessageType :: MessageType

section \<open>Effects and the world outside\<close>

text \<open>
  The calls the package makes on the operating system, the network and its collaborators
  are recorded, in order, as a list of events.
\<close>

datatype goroutine = KillWatcher | ExitWatcher | Poller

datatype event =
    SetProjectRoot
  | NewGaugeConnectionHandler int
  | GetLanguageJSONFilePath string
  | ReadFileContents string
  | ExecuteCommand "string list" string
  | ExecuteCommandWithEnv "string list" string "string list"
  | Go goroutine
  | AcceptConnection
  | Reporter_Debug string
  | Logger_Warning string
  | Process_Kill int
  | Process_Wait int
  | WriteGaugeMessage Message "Conn option"
  | Conn_Close Conn
  | Chan_Send error

text \<open>
  The \<open>select\<close> statement of \<open>Kill\<close> has two cases, the receive from the channel
  \<open>exited\<close> and the receive from the timer. When both can proceed, the run time chooses.
\<close>

datatype selected = Exited_first | Timer_first

text \<open>
  What the world answers to each call. \<open>GOOS\<close> is \<open>runtime.GOOS\<close>;
  \<open>CurrentGaugeVersion\<close> is the text of \<open>version.CurrentGaugeVersion\<close>, as the verb
  \<open>%s\<close> prints it; \<open>Environ\<close> is \<open>os.Environ()\<close>. The functions of the packages
  conn, common, config and version, of \<open>encoding/json\<close> and of \<open>path/filepath\<close> are not
  among the sources: their results are fields of the world. \<open>Polls\<close> is the runner as
  the polling goroutine of \<open>Kill\<close> finds it at each of its checks, one every 100 ms, up
  to the moment the timer of \<open>config.PluginKillTimeout()\<close> fires (the waiting goroutine
  of \<open>startRunner\<close> sets \<open>Cmd.ProcessState\<close> meanwhile); \<open>Select_ret\<close> is the choice of
  the \<open>select\<close> when both of its cases can proceed.
\<close>

record World =
  GOOS :: string
  CurrentGaugeVersion :: string
  Environ :: "string list"
  SetProjectRoot_ret :: "error option"
  GetPortFromEnvironmentVariable_ret :: "error + int"
  NewGaugeConnectionHandler_ret :: "int \<Rightarrow> error + int"
  GetLanguageJSONFilePath_ret :: "string \<Rightarrow> error + string"
  ReadFileContents_ret :: "string \<Rightarrow> error + string"
  Unmarshal_ret :: "string \<Rightarrow> error + Runner"
  Dir_ret :: "string \<Rightarrow> string"
  CheckCompatibility_ret :: "string \<Rightarrow> VersionSupport \<Rightarrow> error option"
  ExecuteCommand_ret :: "string list \<Rightarrow> string \<Rightarrow> error + Process"
  ExecuteCommandWithEnv_ret :: "string list \<Rightarrow> string \<Rightarrow> string list \<Rightarrow> error + Process"
  AcceptConnection_ret :: "Conn option \<times> error option"
  Process_Kill_ret :: "int \<Rightarrow> error option"
  Process_Wait_ret :: "int \<Rightarrow> error option"
  GetUniqueID_ret :: int
  Polls :: "TestRunner list"
  Select_ret :: selected

section \<open>Stopping a runner\<close>

text \<open>
  \<^verbatim>\<open>!(testRunner == nil) && !(testRunner.Cmd == nil) &&
  (testRunner.Cmd.ProcessState == nil || !testRunner.Cmd.ProcessState.Exited())\<close>
\<close>

definition isStillRunning :: "TestRunner option \<Rightarrow> bool" where
  "isStillRunning testRunner =
     (case testRunner of
        None \<Rightarrow> False
      | Some t \<Rightarrow>
          (case Cmd t of
             None \<Rightarrow> False
           | Some c \<Rightarrow> (case ProcessState c of None \<Rightarrow> True | Some ps \<Rightarrow> \<not> Exited ps)))"

text \<open>\<open>testRunner.Cmd.Process.Kill()\<close>: each nil pointer on the way is a panic.\<close>

definition killRunner :: "TestRunner option \<Rightarrow> World \<Rightarrow> error option result \<times> event list" where
  "killRunner testRunner w =
     (case testRunner of
        None \<Rightarrow> (Panic nilDereference, [])
      | Some t \<Rightarrow>
          (case Cmd t of
             None \<Rightarrow> (Panic nilDereference, [])
           | Some c \<Rightarrow>
               (case Process c of
                  None \<Rightarrow> (Panic nilDereference, [])
                | Some p \<Rightarrow> (Return (Process_Kill_ret w (Pid p)), [Process_Kill (Pid p)]))))"

text \<open>
  The message gets a fresh identifier and is written to the connection; what the write
  returns is dropped.
\<close>

definition sendProcessKillMessage :: "TestRunner \<Rightarrow> World \<Rightarrow> event list" where
  "sendProcessKillMessage t w =
     (let id = GetUniqueID_ret w;
          message = \<lparr>MessageId = id, MessageType = Message_KillProcessRequest\<rparr>
      in [WriteGaugeMessage message (Connection t)])"

text \<open>
  The goroutine that \<open>Kill\<close> starts:
  \<^verbatim>\<open>for { if testRunner.isStillRunning() { time.Sleep(100 * time.Millisecond) }
        else { exited <- true; return } }\<close>
  Given the runner as it is at each check, the values sent on \<open>exited\<close>: \<open>true\<close>, once,
  at the first check that finds the runner not running, and nothing as long as every check
  finds it running.
\<close>

fun Kill_poller :: "TestRunner list \<Rightarrow> bool list" where
  "Kill_poller [] = []"
| "Kill_poller (seen # later) =
     (if isStillRunning (Some seen) then Kill_poller later else [True])"

text \<open>
  \<open>Kill\<close>. The deferred \<open>testRunner.Connection.Close()\<close> takes its method value when the
  \<open>defer\<close> statement runs, a panic on a nil interface, and is called when the function
  leaves, by return or by panic. In the \<open>select\<close>, the receive from \<open>exited\<close> can proceed
  only when the poller has sent before the timer fires; when the poller has sent nothing
  by then, the timer's case proceeds. When \<open>done\<close> is false the function falls out of
  the \<open>select\<close> to its last \<open>return nil\<close>.
\<close>

definition Kill :: "TestRunner option \<Rightarrow> World \<Rightarrow> error option result \<times> event list" where
  "Kill testRunner w =
     (if isStillRunning testRunner then
        (case testRunner of
           None \<Rightarrow> (Panic nilDereference, [])
         | Some t \<Rightarrow>
             (case Connection t of
                None \<Rightarrow> (Panic nilDereference, [])
              | Some c \<Rightarrow>
                  (let sent = sendProcessKillMessage t w;
                       exited = Kill_poller (Polls w);
                       timer =
                         (case Cmd t of
                            None \<Rightarrow> (Panic nilDereference, [])
                          | Some cmd \<Rightarrow>
                              (case Process cmd of
                                 None \<Rightarrow> (Panic nilDereference, [])
                               | Some p \<Rightarrow>
                                   (let warning = Logger_Warning
                                          (''Killing runner with PID:'' @ Itoa (Pid p) @ '' forcefully'');
                                        (r, killed) = killRunner testRunner w
                                    in (r, warning # killed))));
                       (r, evs) =
                         (case exited of
                            [] \<Rightarrow> timer
                          | done # _ \<Rightarrow>
                              (case Select_ret w of
                                 Exited_first \<Rightarrow>
                                   (if done then (Return None, []) else (Return None, []))
                               | Timer_first \<Rightarrow> timer))
                   in (r, sent @ Go Poller # evs @ [Conn_Close c]))))
      else (Return None, []))"

section \<open>Starting a runner\<close>

definition getOsSpecificCommand :: "Runner \<Rightarrow> string \<Rightarrow> string list" where
  "getOsSpecificCommand r goos =
     (if goos = ''windows'' then Windows (Run r)
      else if goos = ''darwin'' then Darwin (Run r)
      else Linux (Run r))"

text \<open>
  \<open>getLanguageJSONFilePath\<close> fills the descriptor \<open>r\<close> through a pointer and returns the
  directory of the descriptor file; the model returns both.
\<close>

definition getLanguageJSONFilePath :: "Manifest \<Rightarrow> World \<Rightarrow> (error + string \<times> Runner) \<times> event list" where
  "getLanguageJSONFilePath manifest w =
     (case GetLanguageJSONFilePath_ret w (Language manifest) of
        Inl err \<Rightarrow> (Inl err, [GetLanguageJSONFilePath (Language manifest)])
      | Inr languageJSONFilePath \<Rightarrow>
          (let evs = [GetLanguageJSONFilePath (Language manifest), ReadFileContents languageJSONFilePath]
           in case ReadFileContents_ret w languageJSONFilePath of
                Inl err \<Rightarrow> (Inl err, evs)
              | Inr contents \<Rightarrow>
                  (case Unmarshal_ret w contents of
                     Inl err \<Rightarrow> (Inl err, evs)
                   | Inr r \<Rightarrow> (Inr (Dir_ret w languageJSONFilePath, r), evs))))"

text \<open>
  The two goroutines \<open>startRunner\<close> starts. The first waits for a value on the kill
  channel and then kills the process; the second is the body of \<open>waitAndGetErrorMessage\<close>.
  Each is given by the events it causes once it runs.
\<close>

definition startRunner_killWatcher :: "Process \<Rightarrow> event list" where
  "startRunner_killWatcher p = [Process_Kill (Pid p)]"

definition waitAndGetErrorMessage :: "Process \<Rightarrow> World \<Rightarrow> event list" where
  "waitAndGetErrorMessage p w =
     Process_Wait (Pid p) #
     (case Process_Wait_ret w (Pid p) of
        None \<Rightarrow> []
      | Some err \<Rightarrow>
          [Reporter_Debug (''Runner exited with error: '' @ err),
           Chan_Send (''Runner exited with error: '' @ err @ [CHR 0x0A])])"

text \<open>
  \<open>startRunner\<close>. After \<open>ExecuteCommandWithEnv\<close> has started the command, its \<open>Process\<close>
  is set and its \<open>ProcessState\<close> is nil. \<open>os.Environ()\<close> is a fresh copy at each call, so
  of \<open>getCleanEnv\<close> only the returned slice is used.
\<close>

definition startRunner :: "Manifest \<Rightarrow> string \<Rightarrow> World \<Rightarrow> (error + TestRunner) \<times> event list" where
  "startRunner manifest port w =
     (case getLanguageJSONFilePath manifest w of
        (Inl err, evs) \<Rightarrow> (Inl err, evs)
      | (Inr (runnerDir, r), evs) \<Rightarrow>
          (case CheckCompatibility_ret w (CurrentGaugeVersion w) (GaugeVersionSupport r) of
             Some compatibilityErr \<Rightarrow>
               (Inl (''Compatible runner version to '' @ CurrentGaugeVersion w @
                     '' not found. To update plugin, run `gauge --update {pluginName}`.''), evs)
           | None \<Rightarrow>
               (let command = getOsSpecificCommand r (GOOS w);
                    env = snd (getCleanEnv port (Environ w));
                    evs' = evs @ [ExecuteCommandWithEnv command runnerDir env]
                in case ExecuteCommandWithEnv_ret w command runnerDir env of
                     Inl err \<Rightarrow> (Inl err, evs')
                   | Inr p \<Rightarrow>
                       (let cmd = \<lparr>Process = Some p, ProcessState = None\<rparr>;
                            errChannel = make_chan 0
                        in (Inr \<lparr>Cmd = Some cmd, Connection = None, ErrorChannel = Some errChannel\<rparr>,
                            evs' @ [Go KillWatcher, Go ExitWatcher])))))"

text \<open>
  \<open>StartRunnerAndMakeConnection\<close>. \<open>AcceptConnection\<close> returns a connection and an error;
  the connection is stored before the error is looked at.
\<close>

definition StartRunnerAndMakeConnection :: "Manifest \<Rightarrow> World \<Rightarrow> (error + TestRunner) result \<times> event list" where
  "StartRunnerAndMakeConnection manifest w =
     (let port = (case GetPortFromEnvironmentVariable_ret w of Inl err \<Rightarrow> 0 | Inr port \<Rightarrow> port)
      in case NewGaugeConnectionHandler_ret w port of
           Inl connHandlerErr \<Rightarrow> (Return (Inl connHandlerErr), [NewGaugeConnectionHandler port])
         | Inr connectionPortNumber \<Rightarrow>
             (case startRunner manifest (Itoa connectionPortNumber) w of
                (Inl err, evs) \<Rightarrow> (Return (Inl err), NewGaugeConnectionHandler port # evs)
              | (Inr started, evs) \<Rightarrow>
                  (let (runnerConnection, connectionError) = AcceptConnection_ret w;
                       testRunner = started\<lparr>Connection := runnerConnection\<rparr>;
                       evs' = NewGaugeConnectionHandler port # evs @ [AcceptConnection]
                   in case connectionError of
                        None \<Rightarrow> (Return (Inr testRunner), evs')
                      | Some cerr \<Rightarrow>
                          (let evs'' = evs' @ [Reporter_Debug (''Runner connection error: '' @ cerr)]
                           in case killRunner (Some testRunner) w of
                                (Panic s, killed) \<Rightarrow> (Panic s, evs'' @ killed)
                              | (Return None, killed) \<Rightarrow> (Return (Inl cerr), evs'' @ killed)
                              | (Return (Some err), killed) \<Rightarrow>
                                  (Return (Inl cerr),
                                   evs'' @ killed @
                                   [Reporter_Debug (''Error while killing runner: '' @ err)])))))"

section \<open>The init hook\<close>



section \<open>An example: the ruby runner on linux\<close>

text \<open>
  A descriptor for ruby, with current version 1.0.0 inside the supported range, on a
  machine where the port variable is inherited with another value, no port is asked for
  from outside and the listener gets port 7777. The process ignores the stop request:
  the three checks made before the timer fires find it running.
\<close>

definition ruby_runner :: Runner where
  "ruby_runner =
     \<lparr>Id_r = ''ruby'', Name = ''ruby'', Version = ''0.1.0'',
      Description = ''Ruby support for Gauge'',
      Run = \<lparr>Windows = [''ruby.exe'', ''run.rb''], Linux = [''ruby'', ''run.rb''],
             Darwin = [''ruby'', ''run.rb'']\<rparr>,
      Init = \<lparr>Windows = [''ruby.exe'', ''init.rb''], Linux = [''ruby'', ''init.rb''],
              Darwin = [''ruby'', ''init.rb'']\<rparr>,
      Lib = ''lib'',
      GaugeVersionSupport = \<lparr>Minimum = ''0.5.0'', Maximum = ''2.0.0''\<rparr>\<rparr>"

definition ruby_manifest :: Manifest where
  "ruby_manifest = \<lparr>Language = ''ruby''\<rparr>"

text \<open>A runner as \<open>StartRunnerAndMakeConnection\<close> hands it out, and the same after its exit.\<close>

definition live_runner :: TestRunner where
  "live_runner =
     \<lparr>Cmd = Some \<lparr>Process = Some \<lparr>Pid = 4242\<rparr>, ProcessState = None\<rparr>,
      Connection = Some 1, ErrorChannel = Some (make_chan 0)\<rparr>"


definition ruby_world :: World where
  "ruby_world =
     \<lparr>GOOS = ''linux'',
      CurrentGaugeVersion = ''1.0.0'',
      Environ = [''PATH=/bin'', ''GAUGE_INTERNAL_PORT=9999''],
      SetProjectRoot_ret = None,
      GetPortFromEnvironmentVariable_ret = Inl ''GAUGE_PORT is not set'',
      NewGaugeConnectionHandler_ret = (\<lambda>port. Inr (if port = 0 then 7777 else port)),
      GetLanguageJSONFilePath_ret =
        (\<lambda>language. if language = ''ruby'' then Inr ''/plugins/ruby/ruby.json''
                    else Inl ''no such language plugin''),
      ReadFileContents_ret = (\<lambda>path. Inr ''{}''),
      Unmarshal_ret = (\<lambda>contents. Inr ruby_runner),
      Dir_ret = (\<lambda>path. ''/plugins/ruby''),
      CheckCompatibility_ret = (\<lambda>current support. None),
      ExecuteCommand_ret = (\<lambda>command dir. Inr \<lparr>Pid = 4242\<rparr>),
      ExecuteCommandWithEnv_ret = (\<lambda>command dir env. Inr \<lparr>Pid = 4242\<rparr>),
      AcceptConnection_ret = (Some 1, None),
      Process_Kill_ret = (\<lambda>pid. None),
      Process_Wait_ret = (\<lambda>pid. None),
      GetUniqueID_ret = 1,
      Polls = [live_runner, live_runner, live_runner],
      Select_ret = Exited_first\<rparr>"

declare digits.simps [simp del] TrimLeft.simps [simp del] TrimRight.simps [simp del]

section \<open>Facts about the strings\<close>

lemma Split_not_Nil: "Split s sep \<noteq> []"
  by (induction s) (auto split: list.splits)

lemma hd_Split_append: "sep \<notin> set a \<Longrightarrow> hd (Split (a @ sep # b) sep) = a"
  by (induction a) (auto split: list.splits simp: Split_not_Nil)

lemma hd_Split_takeWhile: "hd (Split s sep) = takeWhile (\<lambda>c. c \<noteq> sep) s"
  by (induction s) (auto split: list.splits simp: Split_not_Nil)

lemma TrimSpace_name: "TrimSpace GaugeInternalPortEnvName = GaugeInternalPortEnvName"
  by (simp add: TrimSpace_def GaugeInternalPortEnvName_def TrimLeft.simps TrimRight.simps
      leadingSpace_def trailingSpace_def spaceRunes_def suffix_to_prefix)

text \<open>An entry \<open>name=value\<close> is taken for the port variable when the name, trimmed, is its name.\<close>

lemma isPortEntry_name:
  "CHR ''='' \<notin> set name \<Longrightarrow>
   isPortEntry (name @ ''='' @ val) = (TrimSpace name = GaugeInternalPortEnvName)"
  using hd_Split_append [of "CHR ''=''" name val] by (simp add: isPortEntry_def)

lemma isPortEntry_new: "isPortEntry (GaugeInternalPortEnvName @ ''='' @ port)"
proof -
  have "CHR ''='' \<notin> set GaugeInternalPortEnvName"
    by (simp add: GaugeInternalPortEnvName_def)
  from isPortEntry_name [OF this, of port] show ?thesis
    by (simp add: TrimSpace_name)
qed

lemma isPortEntry_9999: "isPortEntry ''GAUGE_INTERNAL_PORT=9999''"
  using isPortEntry_new [of "''9999''"] by (simp add: GaugeInternalPortEnvName_def)

lemma isPortEntry_padded: "isPortEntry '' GAUGE_INTERNAL_PORT =1''"
  by (simp add: isPortEntry_def TrimSpace_def GaugeInternalPortEnvName_def TrimLeft.simps
      TrimRight.simps leadingSpace_def trailingSpace_def spaceRunes_def suffix_to_prefix)

lemma not_isPortEntry_PATH: "\<not> isPortEntry ''PATH=/bin''"
  by (simp add: isPortEntry_def TrimSpace_def GaugeInternalPortEnvName_def TrimLeft.simps
      TrimRight.simps leadingSpace_def trailingSpace_def spaceRunes_def suffix_to_prefix)

lemma not_isPortEntry_HOME: "\<not> isPortEntry ''HOME=/root''"
  by (simp add: isPortEntry_def TrimSpace_def GaugeInternalPortEnvName_def TrimLeft.simps
      TrimRight.simps leadingSpace_def trailingSpace_def spaceRunes_def suffix_to_prefix)

lemma Itoa_7777: "Itoa 7777 = ''7777''"
  by (simp add: Itoa_def digits.simps)

lemma Itoa_4242: "Itoa 4242 = ''4242''"
  by (simp add: Itoa_def digits.simps)

section \<open>The loop of getCleanEnv\<close>

lemma getCleanEnv_loop:
  "n \<le> length env \<Longrightarrow>
   fold (\<lambda>i s. getCleanEnv_step port s i) [0..<n] (False, env) =
     (list_ex isPortEntry (take n env),
      map (\<lambda>k. if isPortEntry k then GaugeInternalPortEnvName @ ''='' @ port else k) (take n env)
        @ drop n env)"
proof (induction n)
  case 0
  show ?case by simp
next
  case (Suc n)
  define new where "new = GaugeInternalPortEnvName @ ''='' @ port"
  define f where "f = (\<lambda>k. if isPortEntry k then new else k)"
  from Suc.prems have n: "n < length env" by simp
  have len: "length (map f (take n env)) = n" using n by simp
  have nth: "(map f (take n env) @ drop n env) ! n = env ! n"
    using n by (simp add: nth_append)
  have tk: "take (Suc n) env = take n env @ [env ! n]"
    using n by (simp add: take_Suc_conv_app_nth)
  have dr: "drop n env = env ! n # drop (Suc n) env"
    using n by (simp add: Cons_nth_drop_Suc)
  have upd: "(map f (take n env) @ drop n env)[n := v] = map f (take n env) @ v # drop (Suc n) env"
    for v
    unfolding dr using len by (simp add: list_update_append)
  have IH: "fold (\<lambda>i s. getCleanEnv_step port s i) [0..<n] (False, env) =
     (list_ex isPortEntry (take n env), map f (take n env) @ drop n env)"
    using Suc.IH n by (simp add: f_def new_def)
  have "fold (\<lambda>i s. getCleanEnv_step port s i) [0..<Suc n] (False, env) =
       getCleanEnv_step port (list_ex isPortEntry (take n env), map f (take n env) @ drop n env) n"
    by (simp add: IH)
  also have "\<dots> =
    (list_ex isPortEntry (take (Suc n) env), map f (take (Suc n) env) @ drop (Suc n) env)"
  proof (cases "isPortEntry (env ! n)")
    case True
    have "getCleanEnv_step port (list_ex isPortEntry (take n env), map f (take n env) @ drop n env) n
       = (True, map f (take n env) @ new # drop (Suc n) env)"
      unfolding getCleanEnv_step_def Let_def snd_conv nth new_def [symmetric] upd
      using True by simp
    moreover have "f (env ! n) = new" using True by (simp add: f_def)
    ultimately show ?thesis
      using True by (simp add: tk)
  next
    case False
    have "getCleanEnv_step port (list_ex isPortEntry (take n env), map f (take n env) @ drop n env) n
       = (list_ex isPortEntry (take n env), map f (take n env) @ drop n env)"
      unfolding getCleanEnv_step_def Let_def snd_conv nth using False by simp
    moreover have "f (env ! n) = env ! n" using False by (simp add: f_def)
    ultimately show ?thesis
      using False dr by (simp add: tk)
  qed
  finally show ?case by (simp add: f_def new_def)
qed

lemma map_rewrite_absent:
  "\<not> list_ex isPortEntry env \<Longrightarrow> map (\<lambda>k. if isPortEntry k then new else k) env = env"
  by (induction env) simp_all

lemma getCleanEnv_eq:
  "getCleanEnv port env =
     (map (\<lambda>k. if isPortEntry k then GaugeInternalPortEnvName @ ''='' @ port else k) env,
      if list_ex isPortEntry env
      then map (\<lambda>k. if isPortEntry k then GaugeInternalPortEnvName @ ''='' @ port else k) env
      else env @ [GaugeInternalPortEnvName @ ''='' @ port])"
proof -
  have "fold (\<lambda>i s. getCleanEnv_step port s i) [0..<length env] (False, env) =
     (list_ex isPortEntry env,
      map (\<lambda>k. if isPortEntry k then GaugeInternalPortEnvName @ ''='' @ port else k) env)"
    using getCleanEnv_loop [of "length env" env port] by simp
  then show ?thesis
    unfolding getCleanEnv_def by (simp add: map_rewrite_absent)
qed

lemma filter_port_rewritten:
  "isPortEntry new \<Longrightarrow>
   filter isPortEntry (map (\<lambda>k. if isPortEntry k then new else k) env)
     = replicate (length (filter isPortEntry env)) new"
  by (induction env) simp_all

lemma filter_other_rewritten:
  "isPortEntry new \<Longrightarrow>
   filter (\<lambda>k. \<not> isPortEntry k) (map (\<lambda>k. if isPortEntry k then new else k) env)
     = filter (\<lambda>k. \<not> isPortEntry k) env"
  by (induction env) simp_all

lemma filter_port_absent: "\<not> list_ex isPortEntry env \<Longrightarrow> filter isPortEntry env = []"
  by (induction env) (simp_all split: if_splits)

lemma filter_port_present: "list_ex isPortEntry env \<Longrightarrow> 1 \<le> length (filter isPortEntry env)"
  by (induction env) auto

lemma getCleanEnv_port_entries:
  "filter isPortEntry (snd (getCleanEnv port env)) =
     replicate (max 1 (length (filter isPortEntry env))) (GaugeInternalPortEnvName @ ''='' @ port)"
proof (cases "list_ex isPortEntry env")
  case True
  then have "max 1 (length (filter isPortEntry env)) = length (filter isPortEntry env)"
    using filter_port_present [of env] by simp
  with True show ?thesis
    by (simp only: getCleanEnv_eq snd_conv if_True filter_port_rewritten [OF isPortEntry_new])
next
  case False
  then show ?thesis
    using isPortEntry_new [of port]
    by (simp add: getCleanEnv_eq filter_port_absent del: append.simps)
qed

lemma getCleanEnv_other_entries:
  "filter (\<lambda>k. \<not> isPortEntry k) (snd (getCleanEnv port env)) = filter (\<lambda>k. \<not> isPortEntry k) env"
proof (cases "list_ex isPortEntry env")
  case True
  then show ?thesis
    by (simp only: getCleanEnv_eq snd_conv if_True filter_other_rewritten [OF isPortEntry_new])
next
  case False
  then show ?thesis
    using isPortEntry_new [of port] by (simp add: getCleanEnv_eq del: append.simps)
qed

lemma getCleanEnv_nth_other:
  "i < length env \<Longrightarrow> \<not> isPortEntry (env ! i) \<Longrightarrow> snd (getCleanEnv port env) ! i = env ! i"
  by (simp add: getCleanEnv_eq nth_append)

lemma getCleanEnv_single:
  assumes "\<not> list_ex isPortEntry (pre @ post)" and "isPortEntry old"
  shows "snd (getCleanEnv port (pre @ old # post)) =
           pre @ (GaugeInternalPortEnvName @ ''='' @ port) # post"
proof -
  from assms(1) have "\<not> list_ex isPortEntry pre" "\<not> list_ex isPortEntry post"
    by (simp_all add: list_ex_iff)
  then show ?thesis
    using assms(2) by (simp add: getCleanEnv_eq map_rewrite_absent list_ex_iff del: append.simps)
qed

section \<open>The child environment: claims\<close>

text \<open>
  Claim C5. For every inherited environment and port, the slice that \<open>getCleanEnv\<close> returns
  is the inherited one with every entry for the port variable rewritten to the new port,
  nothing appended, when there is such an entry, and the inherited one with one entry
  appended when there is none. So the entries for the port variable in the result all carry
  the new port, and there are as many as before, or one when there was none. In particular
  an environment whose entry for the variable is \<open>GAUGE_INTERNAL_PORT=9999\<close> gives, with port
  7777, the same environment with \<open>GAUGE_INTERNAL_PORT=7777\<close> in its place: one entry for
  the variable, with value 7777. An entry is for the port variable when the code takes it
  so: the text before its first \<open>=\<close>, trimmed of white space, is the variable's name.
\<close>

theorem getCleanEnv_rewrites_or_appends:
  "snd (getCleanEnv port env) =
     (if list_ex isPortEntry env
      then map (\<lambda>k. if isPortEntry k then GaugeInternalPortEnvName @ ''='' @ port else k) env
      else env @ [GaugeInternalPortEnvName @ ''='' @ port])
   \<and> filter isPortEntry (snd (getCleanEnv port env)) =
       replicate (max 1 (length (filter isPortEntry env))) (GaugeInternalPortEnvName @ ''='' @ port)
   \<and> (\<not> list_ex isPortEntry (pre @ post) \<longrightarrow>
        snd (getCleanEnv ''7777'' (pre @ ''GAUGE_INTERNAL_PORT=9999'' # post)) =
          pre @ ''GAUGE_INTERNAL_PORT=7777'' # post
        \<and> filter isPortEntry (snd (getCleanEnv ''7777'' (pre @ ''GAUGE_INTERNAL_PORT=9999'' # post))) =
          [''GAUGE_INTERNAL_PORT=7777''])"
proof (intro conjI impI)
  show "snd (getCleanEnv port env) =
     (if list_ex isPortEntry env
      then map (\<lambda>k. if isPortEntry k then GaugeInternalPortEnvName @ ''='' @ port else k) env
      else env @ [GaugeInternalPortEnvName @ ''='' @ port])"
    by (simp add: getCleanEnv_eq)
  show "filter isPortEntry (snd (getCleanEnv port env)) =
       replicate (max 1 (length (filter isPortEntry env))) (GaugeInternalPortEnvName @ ''='' @ port)"
    by (rule getCleanEnv_port_entries)
  assume absent: "\<not> list_ex isPortEntry (pre @ post)"
  from getCleanEnv_single [OF absent isPortEntry_9999, of "''7777''"]
  show single: "snd (getCleanEnv ''7777'' (pre @ ''GAUGE_INTERNAL_PORT=9999'' # post)) =
          pre @ ''GAUGE_INTERNAL_PORT=7777'' # post"
    by (simp add: GaugeInternalPortEnvName_def)
  from absent have "filter isPortEntry pre = []" "filter isPortEntry post = []"
    by (simp_all add: filter_port_absent list_ex_iff)
  then show "filter isPortEntry (snd (getCleanEnv ''7777'' (pre @ ''GAUGE_INTERNAL_PORT=9999'' # post))) =
          [''GAUGE_INTERNAL_PORT=7777'']"
    using isPortEntry_new [of "''7777''"]
    by (simp add: single GaugeInternalPortEnvName_def)
qed

theorem getCleanEnv_rewrites_or_appends_witness:
  "snd (getCleanEnv ''7777'' [''PATH=/bin'', ''GAUGE_INTERNAL_PORT=9999'', ''HOME=/root'']) =
     [''PATH=/bin'', ''GAUGE_INTERNAL_PORT=7777'', ''HOME=/root'']
   \<and> filter isPortEntry
       (snd (getCleanEnv ''7777'' [''PATH=/bin'', ''GAUGE_INTERNAL_PORT=9999'', ''HOME=/root''])) =
     [''GAUGE_INTERNAL_PORT=7777'']
   \<and> snd (getCleanEnv ''7777'' [''PATH=/bin'', ''HOME=/root'']) =
     [''PATH=/bin'', ''HOME=/root'', ''GAUGE_INTERNAL_PORT=7777'']"
proof -
  have absent: "\<not> list_ex isPortEntry ([''PATH=/bin''] @ [''HOME=/root''])"
    by (simp add: not_isPortEntry_PATH not_isPortEntry_HOME)
  from getCleanEnv_rewrites_or_appends [of "''7777''" "[''PATH=/bin'', ''HOME=/root'']"
      "[''PATH=/bin'']" "[''HOME=/root'']"] absent
  show ?thesis
    using isPortEntry_new [of "''7777''"]
    by (simp add: not_isPortEntry_PATH not_isPortEntry_HOME GaugeInternalPortEnvName_def)
qed

text \<open>
  Claim C10. \<open>getCleanEnv\<close> leaves every entry that is not for the port variable as it is:
  these entries are the same, in the same order and at the same indices, in the slice it
  returns. When the inherited environment has entries for the port variable, however
  many, each of them is rewritten in place: the slice the caller passed holds the
  rewritten entries after the call, the returned slice is that same content, of the
  same length, and nothing is appended.
\<close>

theorem getCleanEnv_frame:
  "filter (\<lambda>k. \<not> isPortEntry k) (snd (getCleanEnv port env)) = filter (\<lambda>k. \<not> isPortEntry k) env
   \<and> (\<forall>i < length env. \<not> isPortEntry (env ! i) \<longrightarrow> snd (getCleanEnv port env) ! i = env ! i)
   \<and> fst (getCleanEnv port env) =
       map (\<lambda>k. if isPortEntry k then GaugeInternalPortEnvName @ ''='' @ port else k) env
   \<and> (list_ex isPortEntry env \<longrightarrow>
        snd (getCleanEnv port env) = fst (getCleanEnv port env)
        \<and> length (snd (getCleanEnv port env)) = length env
        \<and> (\<forall>i < length env. isPortEntry (env ! i) \<longrightarrow>
              snd (getCleanEnv port env) ! i = GaugeInternalPortEnvName @ ''='' @ port))"
proof (intro conjI impI allI)
  show "filter (\<lambda>k. \<not> isPortEntry k) (snd (getCleanEnv port env)) = filter (\<lambda>k. \<not> isPortEntry k) env"
    by (rule getCleanEnv_other_entries)
  show "snd (getCleanEnv port env) ! i = env ! i" if "i < length env" "\<not> isPortEntry (env ! i)" for i
    using that by (rule getCleanEnv_nth_other)
  show "fst (getCleanEnv port env) =
       map (\<lambda>k. if isPortEntry k then GaugeInternalPortEnvName @ ''='' @ port else k) env"
    by (simp add: getCleanEnv_eq)
  assume present: "list_ex isPortEntry env"
  then show "snd (getCleanEnv port env) = fst (getCleanEnv port env)"
    by (simp add: getCleanEnv_eq)
  from present show "length (snd (getCleanEnv port env)) = length env"
    by (simp add: getCleanEnv_eq)
  show "snd (getCleanEnv port env) ! i = GaugeInternalPortEnvName @ ''='' @ port"
    if "i < length env" "isPortEntry (env ! i)" for i
    using that present by (simp add: getCleanEnv_eq)
qed

theorem getCleanEnv_frame_witness:
  "getCleanEnv ''7777'' [''GAUGE_INTERNAL_PORT=9999'', ''PATH=/bin'', '' GAUGE_INTERNAL_PORT =1''] =
     ([''GAUGE_INTERNAL_PORT=7777'', ''PATH=/bin'', ''GAUGE_INTERNAL_PORT=7777''],
      [''GAUGE_INTERNAL_PORT=7777'', ''PATH=/bin'', ''GAUGE_INTERNAL_PORT=7777''])
   \<and> \<not> isPortEntry ''PATH=/bin''
   \<and> list_ex isPortEntry [''GAUGE_INTERNAL_PORT=9999'', ''PATH=/bin'', '' GAUGE_INTERNAL_PORT =1'']"
proof -
  have present:
    "list_ex isPortEntry [''GAUGE_INTERNAL_PORT=9999'', ''PATH=/bin'', '' GAUGE_INTERNAL_PORT =1'']"
    by (simp add: isPortEntry_9999)
  from getCleanEnv_frame [of "''7777''"
      "[''GAUGE_INTERNAL_PORT=9999'', ''PATH=/bin'', '' GAUGE_INTERNAL_PORT =1'']"] present
  have "snd (getCleanEnv ''7777''
          [''GAUGE_INTERNAL_PORT=9999'', ''PATH=/bin'', '' GAUGE_INTERNAL_PORT =1'']) =
        fst (getCleanEnv ''7777''
          [''GAUGE_INTERNAL_PORT=9999'', ''PATH=/bin'', '' GAUGE_INTERNAL_PORT =1''])"
    and "fst (getCleanEnv ''7777''
          [''GAUGE_INTERNAL_PORT=9999'', ''PATH=/bin'', '' GAUGE_INTERNAL_PORT =1'']) =
        [''GAUGE_INTERNAL_PORT=7777'', ''PATH=/bin'', ''GAUGE_INTERNAL_PORT=7777'']"
    by (simp_all add: isPortEntry_9999 isPortEntry_padded not_isPortEntry_PATH
        GaugeInternalPortEnvName_def)
  then show ?thesis
    using present not_isPortEntry_PATH by (simp add: prod_eq_iff)
qed

section \<open>Stopping a runner: claims\<close>





lemma Kill_poller_silent:
  "(\<forall>seen \<in> set polls. isStillRunning (Some seen)) \<Longrightarrow> Kill_poller polls = []"
  by (induction polls) simp_all

lemma Kill_timer:
  assumes "isStillRunning (Some t)" and "Cmd t = Some c" and "Process c = Some p"
    and "Connection t = Some conn" and "Kill_poller (Polls w) = []"
  shows "Kill (Some t) w =
           (Return (Process_Kill_ret w (Pid p)),
            [WriteGaugeMessage \<lparr>MessageId = GetUniqueID_ret w, MessageType = Message_KillProcessRequest\<rparr>
               (Some conn),
             Go Poller,
             Logger_Warning (''Killing runner with PID:'' @ Itoa (Pid p) @ '' forcefully''),
             Process_Kill (Pid p),
             Conn_Close conn])"
  using assms by (simp add: Kill_def killRunner_def sendProcessKillMessage_def)

text \<open>
  Claim C4. For a running runner with a process and a connection, when the process does
  not exit within the grace period (every check the poller makes before the timer fires
  finds the runner still running), \<open>Kill\<close> takes the timer's case of the \<open>select\<close> and
  does, in this order and each once: write the stop request, start the poller, log the
  warning that names the process id, call the kill of the operating system on that
  process, close the connection. It returns what the kill returned: nil when it
  succeeded, its error when it failed.
\<close>

theorem Kill_timer_branch:
  assumes "isStillRunning (Some t)" and "Cmd t = Some c" and "Process c = Some p"
    and "Connection t = Some conn"
    and "\<forall>seen \<in> set (Polls w). isStillRunning (Some seen)"
  shows "Kill (Some t) w =
           (Return (Process_Kill_ret w (Pid p)),
            [WriteGaugeMessage \<lparr>MessageId = GetUniqueID_ret w, MessageType = Message_KillProcessRequest\<rparr>
               (Some conn),
             Go Poller,
             Logger_Warning (''Killing runner with PID:'' @ Itoa (Pid p) @ '' forcefully''),
             Process_Kill (Pid p),
             Conn_Close conn])
         \<and> (Process_Kill_ret w (Pid p) = None \<longrightarrow> fst (Kill (Some t) w) = Return None)
         \<and> (\<forall>err. Process_Kill_ret w (Pid p) = Some err \<longrightarrow> fst (Kill (Some t) w) = Return (Some err))"
proof -
  from assms(5) have "Kill_poller (Polls w) = []"
    by (rule Kill_poller_silent)
  with assms(1-4) have "Kill (Some t) w =
           (Return (Process_Kill_ret w (Pid p)),
            [WriteGaugeMessage \<lparr>MessageId = GetUniqueID_ret w, MessageType = Message_KillProcessRequest\<rparr>
               (Some conn),
             Go Poller,
             Logger_Warning (''Killing runner with PID:'' @ Itoa (Pid p) @ '' forcefully''),
             Process_Kill (Pid p),
             Conn_Close conn])"
    by (rule Kill_timer)
  then show ?thesis by simp
qed

theorem Kill_timer_branch_witness:
  "isStillRunning (Some live_runner)
   \<and> Polls ruby_world = [live_runner, live_runner, live_runner]
   \<and> Kill (Some live_runner) ruby_world =
       (Return None,
        [WriteGaugeMessage \<lparr>MessageId = 1, MessageType = Message_KillProcessRequest\<rparr> (Some 1),
         Go Poller,
         Logger_Warning ''Killing runner with PID:4242 forcefully'',
         Process_Kill 4242,
         Conn_Close 1])
   \<and> Kill (Some live_runner) (ruby_world\<lparr>Process_Kill_ret := (\<lambda>pid. Some ''operation not permitted'')\<rparr>) =
       (Return (Some ''operation not permitted''),
        [WriteGaugeMessage \<lparr>MessageId = 1, MessageType = Message_KillProcessRequest\<rparr> (Some 1),
         Go Poller,
         Logger_Warning ''Killing runner with PID:4242 forcefully'',
         Process_Kill 4242,
         Conn_Close 1])"
proof -
  have r: "isStillRunning (Some live_runner)"
    by (simp add: isStillRunning_def live_runner_def)
  have c: "Cmd live_runner = Some \<lparr>Process = Some \<lparr>Pid = 4242\<rparr>, ProcessState = None\<rparr>"
    by (simp add: live_runner_def)
  have p: "Process \<lparr>Process = Some \<lparr>Pid = 4242\<rparr>, ProcessState = None\<rparr> = Some \<lparr>Pid = 4242\<rparr>"
    by simp
  have conn: "Connection live_runner = Some 1"
    by (simp add: live_runner_def)
  have polls: "Polls ruby_world = [live_runner, live_runner, live_runner]"
    by (simp add: ruby_world_def)
  have s1: "\<forall>seen \<in> set (Polls ruby_world). isStillRunning (Some seen)"
    by (simp add: polls r)
  have s2: "\<forall>seen \<in> set (Polls (ruby_world\<lparr>Process_Kill_ret := (\<lambda>pid. Some ''operation not permitted'')\<rparr>)).
      isStillRunning (Some seen)"
    by (simp add: polls r)
  from Kill_timer_branch [OF r c p conn s1] Kill_timer_branch [OF r c p conn s2] r polls
  show ?thesis
    by (simp add: ruby_world_def Itoa_4242)
qed

text \<open>
  Claim C9. \<open>Kill\<close> on a nil runner, and on a runner whose \<open>Cmd\<close> is nil, returns nil
  and causes no event (it does not panic, reads no process, writes no message and does
  not touch the connection): \<open>isStillRunning\<close> is false of both.
\<close>

theorem Kill_nil_receiver:
  "\<not> isStillRunning None \<and> Kill None w = (Return None, [])
   \<and> (Cmd t = None \<longrightarrow> \<not> isStillRunning (Some t) \<and> Kill (Some t) w = (Return None, []))"
  by (simp add: Kill_def isStillRunning_def)

theorem Kill_nil_receiver_witness:
  "Cmd \<lparr>Cmd = None, Connection = None, ErrorChannel = None\<rparr> = None
   \<and> Kill None ruby_world = (Return None, [])
   \<and> Kill (Some \<lparr>Cmd = None, Connection = None, ErrorChannel = None\<rparr>) ruby_world = (Return None, [])"
  using Kill_nil_receiver [of ruby_world "\<lparr>Cmd = None, Connection = None, ErrorChannel = None\<rparr>"]
  by simp

section \<open>Starting a runner: the shape of the runs\<close>


lemma getLanguageJSONFilePath_Inr:
  assumes "getLanguageJSONFilePath manifest w = (Inr (runnerDir, r), evs)"
  shows "\<exists>path contents.
           GetLanguageJSONFilePath_ret w (Language manifest) = Inr path \<and>
           ReadFileContents_ret w path = Inr contents \<and>
           Unmarshal_ret w contents = Inr r \<and>
           runnerDir = Dir_ret w path \<and>
           evs = [GetLanguageJSONFilePath (Language manifest), ReadFileContents path]"
  using assms
  by (auto simp: getLanguageJSONFilePath_def Let_def split: sum.splits)

lemma getLanguageJSONFilePath_no_spawn:
  assumes "getLanguageJSONFilePath manifest w = (x, evs)"
  shows "ExecuteCommandWithEnv command dir env \<notin> set evs"
  using assms
  by (auto simp: getLanguageJSONFilePath_def Let_def split: sum.splits)

text \<open>The four ways through \<open>startRunner\<close>.\<close>

lemma startRunner_descriptor_error:
  "getLanguageJSONFilePath manifest w = (Inl err, evs) \<Longrightarrow>
   startRunner manifest port w = (Inl err, evs)"
  by (simp add: startRunner_def)

lemma startRunner_incompatible:
  "getLanguageJSONFilePath manifest w = (Inr (runnerDir, r), evs) \<Longrightarrow>
   CheckCompatibility_ret w (CurrentGaugeVersion w) (GaugeVersionSupport r) = Some compatibilityErr \<Longrightarrow>
   startRunner manifest port w =
     (Inl (''Compatible runner version to '' @ CurrentGaugeVersion w @
           '' not found. To update plugin, run `gauge --update {pluginName}`.''), evs)"
  by (simp add: startRunner_def)

lemma startRunner_launch_error:
  "getLanguageJSONFilePath manifest w = (Inr (runnerDir, r), evs) \<Longrightarrow>
   CheckCompatibility_ret w (CurrentGaugeVersion w) (GaugeVersionSupport r) = None \<Longrightarrow>
   ExecuteCommandWithEnv_ret w (getOsSpecificCommand r (GOOS w)) runnerDir
     (snd (getCleanEnv port (Environ w))) = Inl err \<Longrightarrow>
   startRunner manifest port w =
     (Inl err,
      evs @ [ExecuteCommandWithEnv (getOsSpecificCommand r (GOOS w)) runnerDir
               (snd (getCleanEnv port (Environ w)))])"
  by (simp add: startRunner_def Let_def)

lemma startRunner_started:
  "getLanguageJSONFilePath manifest w = (Inr (runnerDir, r), evs) \<Longrightarrow>
   CheckCompatibility_ret w (CurrentGaugeVersion w) (GaugeVersionSupport r) = None \<Longrightarrow>
   ExecuteCommandWithEnv_ret w (getOsSpecificCommand r (GOOS w)) runnerDir
     (snd (getCleanEnv port (Environ w))) = Inr p \<Longrightarrow>
   startRunner manifest port w =
     (Inr \<lparr>Cmd = Some \<lparr>Process = Some p, ProcessState = None\<rparr>, Connection = None,
           ErrorChannel = Some (make_chan 0)\<rparr>,
      evs @ [ExecuteCommandWithEnv (getOsSpecificCommand r (GOOS w)) runnerDir
               (snd (getCleanEnv port (Environ w))),
             Go KillWatcher, Go ExitWatcher])"
  by (simp add: startRunner_def Let_def)

lemma startRunner_Inr:
  assumes "startRunner manifest port w = (Inr tr, evs)"
  shows "\<exists>runnerDir r evs0 p.
           getLanguageJSONFilePath manifest w = (Inr (runnerDir, r), evs0) \<and>
           CheckCompatibility_ret w (CurrentGaugeVersion w) (GaugeVersionSupport r) = None \<and>
           ExecuteCommandWithEnv_ret w (getOsSpecificCommand r (GOOS w)) runnerDir
             (snd (getCleanEnv port (Environ w))) = Inr p \<and>
           tr = \<lparr>Cmd = Some \<lparr>Process = Some p, ProcessState = None\<rparr>, Connection = None,
                 ErrorChannel = Some (make_chan 0)\<rparr> \<and>
           evs = evs0 @ [ExecuteCommandWithEnv (getOsSpecificCommand r (GOOS w)) runnerDir
                           (snd (getCleanEnv port (Environ w))),
                         Go KillWatcher, Go ExitWatcher]"
proof -
  obtain x evs0 where g: "getLanguageJSONFilePath manifest w = (x, evs0)"
    by (cases "getLanguageJSONFilePath manifest w")
  show ?thesis
  proof (cases x)
    case (Inl err)
    with g assms show ?thesis by (simp add: startRunner_descriptor_error)
  next
    case (Inr dr)
    obtain runnerDir r where dr: "dr = (runnerDir, r)" by (cases dr)
    note g' = g [unfolded Inr dr]
    show ?thesis
    proof (cases "CheckCompatibility_ret w (CurrentGaugeVersion w) (GaugeVersionSupport r)")
      case (Some compatibilityErr)
      from startRunner_incompatible [OF g' Some] assms show ?thesis by simp
    next
      case None
      show ?thesis
      proof (cases "ExecuteCommandWithEnv_ret w (getOsSpecificCommand r (GOOS w)) runnerDir
             (snd (getCleanEnv port (Environ w)))")
        case (Inl err)
        from startRunner_launch_error [OF g' None Inl] assms show ?thesis by simp
      next
        case (Inr p)
        from startRunner_started [OF g' None Inr] assms g' None Inr show ?thesis by simp
      qed
    qed
  qed
qed

text \<open>Every spawn that \<open>startRunner\<close> asks for comes after the descriptor and the gate.\<close>

lemma startRunner_spawn:
  assumes "ExecuteCommandWithEnv command dir env \<in> set (snd (startRunner manifest port w))"
  shows "\<exists>r evs0 rest.
           getLanguageJSONFilePath manifest w = (Inr (dir, r), evs0) \<and>
           CheckCompatibility_ret w (CurrentGaugeVersion w) (GaugeVersionSupport r) = None \<and>
           command = getOsSpecificCommand r (GOOS w) \<and>
           env = snd (getCleanEnv port (Environ w)) \<and>
           snd (startRunner manifest port w) = evs0 @ ExecuteCommandWithEnv command dir env # rest \<and>
           (rest = [] \<or> rest = [Go KillWatcher, Go ExitWatcher])"
proof -
  obtain x evs0 where g: "getLanguageJSONFilePath manifest w = (x, evs0)"
    by (cases "getLanguageJSONFilePath manifest w")
  note ns = getLanguageJSONFilePath_no_spawn [OF g, of command dir env]
  show ?thesis
  proof (cases x)
    case (Inl err)
    with g assms ns show ?thesis by (simp add: startRunner_descriptor_error)
  next
    case (Inr dr)
    obtain runnerDir r where dr: "dr = (runnerDir, r)" by (cases dr)
    note g' = g [unfolded Inr dr]
    show ?thesis
    proof (cases "CheckCompatibility_ret w (CurrentGaugeVersion w) (GaugeVersionSupport r)")
      case (Some compatibilityErr)
      from startRunner_incompatible [OF g' Some] assms ns show ?thesis by simp
    next
      case None
      show ?thesis
      proof (cases "ExecuteCommandWithEnv_ret w (getOsSpecificCommand r (GOOS w)) runnerDir
             (snd (getCleanEnv port (Environ w)))")
        case (Inl err)
        from startRunner_launch_error [OF g' None Inl] assms ns g' None show ?thesis by auto
      next
        case (Inr p)
        from startRunner_started [OF g' None Inr] assms ns g' None show ?thesis by auto
      qed
    qed
  qed
qed

text \<open>The runs of \<open>StartRunnerAndMakeConnection\<close>.\<close>

lemma Start_listener_error:
  "NewGaugeConnectionHandler_ret w
     (case GetPortFromEnvironmentVariable_ret w of Inl err \<Rightarrow> 0 | Inr port \<Rightarrow> port) = Inl e \<Longrightarrow>
   StartRunnerAndMakeConnection manifest w =
     (Return (Inl e),
      [NewGaugeConnectionHandler
         (case GetPortFromEnvironmentVariable_ret w of Inl err \<Rightarrow> 0 | Inr port \<Rightarrow> port)])"
  by (simp add: StartRunnerAndMakeConnection_def Let_def)

lemma Start_runner_error:
  "NewGaugeConnectionHandler_ret w
     (case GetPortFromEnvironmentVariable_ret w of Inl err \<Rightarrow> 0 | Inr port \<Rightarrow> port) = Inr n \<Longrightarrow>
   startRunner manifest (Itoa n) w = (Inl e, evs) \<Longrightarrow>
   StartRunnerAndMakeConnection manifest w =
     (Return (Inl e),
      NewGaugeConnectionHandler
        (case GetPortFromEnvironmentVariable_ret w of Inl err \<Rightarrow> 0 | Inr port \<Rightarrow> port) # evs)"
  by (simp add: StartRunnerAndMakeConnection_def Let_def)

lemma Start_connected:
  "NewGaugeConnectionHandler_ret w
     (case GetPortFromEnvironmentVariable_ret w of Inl err \<Rightarrow> 0 | Inr port \<Rightarrow> port) = Inr n \<Longrightarrow>
   startRunner manifest (Itoa n) w = (Inr started, evs) \<Longrightarrow>
   AcceptConnection_ret w = (runnerConnection, None) \<Longrightarrow>
   StartRunnerAndMakeConnection manifest w =
     (Return (Inr (started\<lparr>Connection := runnerConnection\<rparr>)),
      NewGaugeConnectionHandler
        (case GetPortFromEnvironmentVariable_ret w of Inl err \<Rightarrow> 0 | Inr port \<Rightarrow> port) #
      evs @ [AcceptConnection])"
  by (simp add: StartRunnerAndMakeConnection_def Let_def)

lemma Start_handshake_error:
  "NewGaugeConnectionHandler_ret w
     (case GetPortFromEnvironmentVariable_ret w of Inl err \<Rightarrow> 0 | Inr port \<Rightarrow> port) = Inr n \<Longrightarrow>
   startRunner manifest (Itoa n) w = (Inr started, evs) \<Longrightarrow>
   Cmd started = Some \<lparr>Process = Some p, ProcessState = None\<rparr> \<Longrightarrow>
   AcceptConnection_ret w = (runnerConnection, Some cerr) \<Longrightarrow>
   StartRunnerAndMakeConnection manifest w =
     (Return (Inl cerr),
      NewGaugeConnectionHandler
        (case GetPortFromEnvironmentVariable_ret w of Inl err \<Rightarrow> 0 | Inr port \<Rightarrow> port) #
      evs @ [AcceptConnection, Reporter_Debug (''Runner connection error: '' @ cerr),
             Process_Kill (Pid p)] @
      (case Process_Kill_ret w (Pid p) of
         None \<Rightarrow> []
       | Some err \<Rightarrow> [Reporter_Debug (''Error while killing runner: '' @ err)]))"
  by (simp add: StartRunnerAndMakeConnection_def Let_def killRunner_def split: option.splits)

lemma Start_spawn:
  assumes "ExecuteCommandWithEnv command dir env \<in> set (snd (StartRunnerAndMakeConnection manifest w))"
  shows "\<exists>n tail.
           NewGaugeConnectionHandler_ret w
             (case GetPortFromEnvironmentVariable_ret w of Inl err \<Rightarrow> 0 | Inr port \<Rightarrow> port) = Inr n \<and>
           snd (StartRunnerAndMakeConnection manifest w) =
             NewGaugeConnectionHandler
               (case GetPortFromEnvironmentVariable_ret w of Inl err \<Rightarrow> 0 | Inr port \<Rightarrow> port) #
             snd (startRunner manifest (Itoa n) w) @ tail \<and>
           ExecuteCommandWithEnv command dir env \<in> set (snd (startRunner manifest (Itoa n) w))"
proof -
  define port where
    "port = (case GetPortFromEnvironmentVariable_ret w of Inl err \<Rightarrow> 0 | Inr port \<Rightarrow> port)"
  show ?thesis
    unfolding port_def [symmetric]
  proof (cases "NewGaugeConnectionHandler_ret w port")
    case (Inl e)
    from Start_listener_error [of w e manifest, folded port_def, OF Inl] assms
    show "\<exists>n tail. NewGaugeConnectionHandler_ret w port = Inr n \<and>
           snd (StartRunnerAndMakeConnection manifest w) =
             NewGaugeConnectionHandler port # snd (startRunner manifest (Itoa n) w) @ tail \<and>
           ExecuteCommandWithEnv command dir env \<in> set (snd (startRunner manifest (Itoa n) w))"
      by simp
  next
    case (Inr n)
    obtain x evs where s: "startRunner manifest (Itoa n) w = (x, evs)"
      by (cases "startRunner manifest (Itoa n) w")
    have "\<exists>tail. snd (StartRunnerAndMakeConnection manifest w) =
             NewGaugeConnectionHandler port # evs @ tail \<and>
             ExecuteCommandWithEnv command dir env \<notin> set tail"
    proof (cases x)
      case (Inl e)
      from Start_runner_error [of w n manifest e evs, folded port_def, OF Inr s [unfolded Inl]]
      show ?thesis by simp
    next
      case started: (Inr started)
      from startRunner_Inr [OF s [unfolded started]] obtain p
        where c: "Cmd started = Some \<lparr>Process = Some p, ProcessState = None\<rparr>"
        by auto
      obtain runnerConnection connectionError
        where a: "AcceptConnection_ret w = (runnerConnection, connectionError)"
        by (cases "AcceptConnection_ret w")
      show ?thesis
      proof (cases connectionError)
        case None
        from Start_connected [of w n manifest started evs runnerConnection, folded port_def,
            OF Inr s [unfolded started] a [unfolded None]]
        show ?thesis by simp
      next
        case (Some cerr)
        from Start_handshake_error [of w n manifest started evs p runnerConnection cerr,
            folded port_def, OF Inr s [unfolded started] c a [unfolded Some]]
        show ?thesis by (simp split: option.splits)
      qed
    qed
    then obtain tail where
      t: "snd (StartRunnerAndMakeConnection manifest w) = NewGaugeConnectionHandler port # evs @ tail"
      and nt: "ExecuteCommandWithEnv command dir env \<notin> set tail"
      by blast
    from assms t nt have "ExecuteCommandWithEnv command dir env \<in> set evs" by simp
    with Inr t s
    show "\<exists>n tail. NewGaugeConnectionHandler_ret w port = Inr n \<and>
           snd (StartRunnerAndMakeConnection manifest w) =
             NewGaugeConnectionHandler port # snd (startRunner manifest (Itoa n) w) @ tail \<and>
           ExecuteCommandWithEnv command dir env \<in> set (snd (startRunner manifest (Itoa n) w))"
      by auto
  qed
qed

section \<open>Starting a runner: claims\<close>

text \<open>
  Claim C1. When the listener is bound, \<open>startRunner\<close> has spawned the process, and
  \<open>AcceptConnection\<close> returns an error (a timeout or the error from the exit-error
  channel), \<open>StartRunnerAndMakeConnection\<close> returns that error, and before it returns it
  calls the kill of the operating system, once, on the very process the spawn gave: the
  events after the accept are the debug line of the connection error, the kill, and a
  debug line more when the kill itself reports an error.
\<close>

theorem failed_handshake_kills_runner:
  assumes "port = (case GetPortFromEnvironmentVariable_ret w of Inl err \<Rightarrow> 0 | Inr port \<Rightarrow> port)"
    and "NewGaugeConnectionHandler_ret w port = Inr n"
    and "startRunner manifest (Itoa n) w = (Inr started, evs)"
    and "AcceptConnection_ret w = (runnerConnection, Some connectionError)"
  shows "\<exists>command dir env p.
           ExecuteCommandWithEnv command dir env \<in> set evs \<and>
           ExecuteCommandWithEnv_ret w command dir env = Inr p \<and>
           StartRunnerAndMakeConnection manifest w =
             (Return (Inl connectionError),
              NewGaugeConnectionHandler port # evs @
              [AcceptConnection, Reporter_Debug (''Runner connection error: '' @ connectionError),
               Process_Kill (Pid p)] @
              (case Process_Kill_ret w (Pid p) of
                 None \<Rightarrow> []
               | Some err \<Rightarrow> [Reporter_Debug (''Error while killing runner: '' @ err)]))"
proof -
  from startRunner_Inr [OF assms(3)] obtain runnerDir r evs0 p where
    e: "ExecuteCommandWithEnv_ret w (getOsSpecificCommand r (GOOS w)) runnerDir
          (snd (getCleanEnv (Itoa n) (Environ w))) = Inr p"
    and c: "Cmd started = Some \<lparr>Process = Some p, ProcessState = None\<rparr>"
    and evs: "evs = evs0 @ [ExecuteCommandWithEnv (getOsSpecificCommand r (GOOS w)) runnerDir
                (snd (getCleanEnv (Itoa n) (Environ w))), Go KillWatcher, Go ExitWatcher]"
    by auto
  from evs have "ExecuteCommandWithEnv (getOsSpecificCommand r (GOOS w)) runnerDir
      (snd (getCleanEnv (Itoa n) (Environ w))) \<in> set evs"
    by simp
  moreover note e
  moreover from Start_handshake_error [OF assms(2) [unfolded assms(1)] assms(3) c assms(4)]
  have "StartRunnerAndMakeConnection manifest w =
     (Return (Inl connectionError),
      NewGaugeConnectionHandler port # evs @
      [AcceptConnection, Reporter_Debug (''Runner connection error: '' @ connectionError),
       Process_Kill (Pid p)] @
      (case Process_Kill_ret w (Pid p) of
         None \<Rightarrow> []
       | Some err \<Rightarrow> [Reporter_Debug (''Error while killing runner: '' @ err)]))"
    by (simp only: assms(1))
  ultimately show ?thesis by blast
qed

section \<open>The ruby example, evaluated\<close>

lemma ruby_env: "snd (getCleanEnv ''7777'' [''PATH=/bin'', ''GAUGE_INTERNAL_PORT=9999'']) =
    [''PATH=/bin'', ''GAUGE_INTERNAL_PORT=7777'']"
  by (simp add: getCleanEnv_eq isPortEntry_9999 not_isPortEntry_PATH GaugeInternalPortEnvName_def)

lemma ruby_descriptor:
  "GetLanguageJSONFilePath_ret w = GetLanguageJSONFilePath_ret ruby_world \<Longrightarrow>
   ReadFileContents_ret w = ReadFileContents_ret ruby_world \<Longrightarrow>
   Unmarshal_ret w = Unmarshal_ret ruby_world \<Longrightarrow>
   Dir_ret w = Dir_ret ruby_world \<Longrightarrow>
   getLanguageJSONFilePath ruby_manifest w =
     (Inr (''/plugins/ruby'', ruby_runner),
      [GetLanguageJSONFilePath ''ruby'', ReadFileContents ''/plugins/ruby/ruby.json''])"
  by (simp add: getLanguageJSONFilePath_def ruby_manifest_def ruby_world_def)

lemma ruby_startRunner:
  "GetLanguageJSONFilePath_ret w = GetLanguageJSONFilePath_ret ruby_world \<Longrightarrow>
   ReadFileContents_ret w = ReadFileContents_ret ruby_world \<Longrightarrow>
   Unmarshal_ret w = Unmarshal_ret ruby_world \<Longrightarrow>
   Dir_ret w = Dir_ret ruby_world \<Longrightarrow>
   CheckCompatibility_ret w = CheckCompatibility_ret ruby_world \<Longrightarrow>
   ExecuteCommandWithEnv_ret w = ExecuteCommandWithEnv_ret ruby_world \<Longrightarrow>
   GOOS w = ''linux'' \<Longrightarrow> Environ w = Environ ruby_world \<Longrightarrow>
   startRunner ruby_manifest ''7777'' w =
     (Inr \<lparr>Cmd = Some \<lparr>Process = Some \<lparr>Pid = 4242\<rparr>, ProcessState = None\<rparr>, Connection = None,
           ErrorChannel = Some (make_chan 0)\<rparr>,
      [GetLanguageJSONFilePath ''ruby'', ReadFileContents ''/plugins/ruby/ruby.json'',
       ExecuteCommandWithEnv [''ruby'', ''run.rb''] ''/plugins/ruby''
         [''PATH=/bin'', ''GAUGE_INTERNAL_PORT=7777''],
       Go KillWatcher, Go ExitWatcher])"
proof -
  assume a: "GetLanguageJSONFilePath_ret w = GetLanguageJSONFilePath_ret ruby_world"
    "ReadFileContents_ret w = ReadFileContents_ret ruby_world"
    "Unmarshal_ret w = Unmarshal_ret ruby_world"
    "Dir_ret w = Dir_ret ruby_world"
  assume b: "CheckCompatibility_ret w = CheckCompatibility_ret ruby_world"
    "ExecuteCommandWithEnv_ret w = ExecuteCommandWithEnv_ret ruby_world"
    "GOOS w = ''linux''" "Environ w = Environ ruby_world"
  have compat: "CheckCompatibility_ret w (CurrentGaugeVersion w) (GaugeVersionSupport ruby_runner) = None"
    by (simp add: b ruby_world_def)
  have cmd: "getOsSpecificCommand ruby_runner (GOOS w) = [''ruby'', ''run.rb'']"
    by (simp add: b getOsSpecificCommand_def ruby_runner_def)
  have env: "snd (getCleanEnv ''7777'' (Environ w)) = [''PATH=/bin'', ''GAUGE_INTERNAL_PORT=7777'']"
    using ruby_env by (simp add: b ruby_world_def)
  have ex: "ExecuteCommandWithEnv_ret w (getOsSpecificCommand ruby_runner (GOOS w)) ''/plugins/ruby''
     (snd (getCleanEnv ''7777'' (Environ w))) = Inr \<lparr>Pid = 4242\<rparr>"
    by (simp add: b ruby_world_def)
  from startRunner_started [OF ruby_descriptor [OF a] compat ex]
  show ?thesis by (simp only: cmd env append.simps)
qed

theorem failed_handshake_kills_runner_witness:
  "StartRunnerAndMakeConnection ruby_manifest
     (ruby_world\<lparr>AcceptConnection_ret := (None, Some ''timed out'')\<rparr>) =
     (Return (Inl ''timed out''),
      [NewGaugeConnectionHandler 0, GetLanguageJSONFilePath ''ruby'',
       ReadFileContents ''/plugins/ruby/ruby.json'',
       ExecuteCommandWithEnv [''ruby'', ''run.rb''] ''/plugins/ruby''
         [''PATH=/bin'', ''GAUGE_INTERNAL_PORT=7777''],
       Go KillWatcher, Go ExitWatcher, AcceptConnection,
       Reporter_Debug ''Runner connection error: timed out'',
       Process_Kill 4242])"
proof -
  define w where "w = ruby_world\<lparr>AcceptConnection_ret := (None, Some ''timed out'')\<rparr>"
  have port: "(0::int) = (case GetPortFromEnvironmentVariable_ret w of Inl err \<Rightarrow> 0 | Inr port \<Rightarrow> port)"
    by (simp add: w_def ruby_world_def)
  have listener: "NewGaugeConnectionHandler_ret w 0 = Inr 7777"
    by (simp add: w_def ruby_world_def)
  have started: "startRunner ruby_manifest (Itoa 7777) w =
     (Inr \<lparr>Cmd = Some \<lparr>Process = Some \<lparr>Pid = 4242\<rparr>, ProcessState = None\<rparr>, Connection = None,
           ErrorChannel = Some (make_chan 0)\<rparr>,
      [GetLanguageJSONFilePath ''ruby'', ReadFileContents ''/plugins/ruby/ruby.json'',
       ExecuteCommandWithEnv [''ruby'', ''run.rb''] ''/plugins/ruby''
         [''PATH=/bin'', ''GAUGE_INTERNAL_PORT=7777''],
       Go KillWatcher, Go ExitWatcher])"
    unfolding Itoa_7777 by (rule ruby_startRunner) (simp_all add: w_def ruby_world_def)
  have accept: "AcceptConnection_ret w = (None, Some ''timed out'')"
    by (simp add: w_def)
  have kill: "Process_Kill_ret w = (\<lambda>pid. None)"
    by (simp add: w_def ruby_world_def)
  have spawn: "ExecuteCommandWithEnv_ret w = (\<lambda>command dir env. Inr \<lparr>Pid = 4242\<rparr>)"
    by (simp add: w_def ruby_world_def)
  from failed_handshake_kills_runner [OF port listener started accept]
  show ?thesis
    unfolding w_def [symmetric] by (auto simp: kill spawn)
qed

text \<open>
  Claim C2, as the code has it. The channel that \<open>startRunner\<close> makes for the errors of
  the process is unbuffered: \<open>make(chan error)\<close> gives capacity 0, not 1. \<open>startRunner\<close>
  starts the exit watcher once, and the watcher sends on the channel once when the wait
  for the process returns an error, and never when it returns nil.
\<close>

theorem exit_error_channel_unbuffered:
  assumes "startRunner manifest port w = (Inr tr, evs)"
  shows "\<exists>p. Cmd tr = Some \<lparr>Process = Some p, ProcessState = None\<rparr> \<and>
           ErrorChannel tr = Some (make_chan 0) \<and> cap (make_chan 0) = 0 \<and>
           filter (\<lambda>e. e = Go ExitWatcher) evs = [Go ExitWatcher] \<and>
           filter (\<lambda>e. \<exists>m. e = Chan_Send m) (waitAndGetErrorMessage p w) =
             (case Process_Wait_ret w (Pid p) of
                None \<Rightarrow> []
              | Some err \<Rightarrow> [Chan_Send (''Runner exited with error: '' @ err @ [CHR 0x0A])])"
proof -
  from startRunner_Inr [OF assms] obtain runnerDir r evs0 p where
    g: "getLanguageJSONFilePath manifest w = (Inr (runnerDir, r), evs0)"
    and tr: "tr = \<lparr>Cmd = Some \<lparr>Process = Some p, ProcessState = None\<rparr>, Connection = None,
                 ErrorChannel = Some (make_chan 0)\<rparr>"
    and evs: "evs = evs0 @ [ExecuteCommandWithEnv (getOsSpecificCommand r (GOOS w)) runnerDir
                (snd (getCleanEnv port (Environ w))), Go KillWatcher, Go ExitWatcher]"
    by auto
  from getLanguageJSONFilePath_Inr [OF g] have "filter (\<lambda>e. e = Go ExitWatcher) evs0 = []"
    by auto
  then have "filter (\<lambda>e. e = Go ExitWatcher) evs = [Go ExitWatcher]"
    by (simp add: evs)
  moreover have "filter (\<lambda>e. \<exists>m. e = Chan_Send m) (waitAndGetErrorMessage p w) =
             (case Process_Wait_ret w (Pid p) of
                None \<Rightarrow> []
              | Some err \<Rightarrow> [Chan_Send (''Runner exited with error: '' @ err @ [CHR 0x0A])])"
    by (simp add: waitAndGetErrorMessage_def split: option.splits)
  ultimately show ?thesis
    by (simp add: tr make_chan_def)
qed

theorem exit_error_channel_unbuffered_witness:
  "startRunner ruby_manifest ''7777'' (ruby_world\<lparr>Process_Wait_ret := (\<lambda>pid. Some ''exit status 1'')\<rparr>) =
     (Inr \<lparr>Cmd = Some \<lparr>Process = Some \<lparr>Pid = 4242\<rparr>, ProcessState = None\<rparr>, Connection = None,
           ErrorChannel = Some (make_chan 0)\<rparr>,
      [GetLanguageJSONFilePath ''ruby'', ReadFileContents ''/plugins/ruby/ruby.json'',
       ExecuteCommandWithEnv [''ruby'', ''run.rb''] ''/plugins/ruby''
         [''PATH=/bin'', ''GAUGE_INTERNAL_PORT=7777''],
       Go KillWatcher, Go ExitWatcher])
   \<and> filter (\<lambda>e. \<exists>m. e = Chan_Send m)
       (waitAndGetErrorMessage \<lparr>Pid = 4242\<rparr>
          (ruby_world\<lparr>Process_Wait_ret := (\<lambda>pid. Some ''exit status 1'')\<rparr>)) =
     [Chan_Send (''Runner exited with error: exit status 1'' @ [CHR 0x0A])]"
proof -
  define w where "w = ruby_world\<lparr>Process_Wait_ret := (\<lambda>pid. Some ''exit status 1'')\<rparr>"
  have started: "startRunner ruby_manifest ''7777'' w =
     (Inr \<lparr>Cmd = Some \<lparr>Process = Some \<lparr>Pid = 4242\<rparr>, ProcessState = None\<rparr>, Connection = None,
           ErrorChannel = Some (make_chan 0)\<rparr>,
      [GetLanguageJSONFilePath ''ruby'', ReadFileContents ''/plugins/ruby/ruby.json'',
       ExecuteCommandWithEnv [''ruby'', ''run.rb''] ''/plugins/ruby''
         [''PATH=/bin'', ''GAUGE_INTERNAL_PORT=7777''],
       Go KillWatcher, Go ExitWatcher])"
    by (rule ruby_startRunner) (simp_all add: w_def ruby_world_def)
  have wait: "Process_Wait_ret w = (\<lambda>pid. Some ''exit status 1'')"
    by (simp add: w_def)
  from exit_error_channel_unbuffered [OF started] started
  show ?thesis
    unfolding w_def [symmetric] by (auto simp: wait)
qed

text \<open>
  Claim C2 as it is written fails: in the ruby example the channel of the runner that
  \<open>startRunner\<close> returns has capacity 0, not 1.
\<close>

theorem exit_error_channel_capacity_counterexample:
  "fst (startRunner ruby_manifest ''7777'' ruby_world) =
     Inr \<lparr>Cmd = Some \<lparr>Process = Some \<lparr>Pid = 4242\<rparr>, ProcessState = None\<rparr>, Connection = None,
          ErrorChannel = Some (make_chan 0)\<rparr>
   \<and> cap (make_chan 0) \<noteq> 1"
proof -
  have "startRunner ruby_manifest ''7777'' ruby_world =
     (Inr \<lparr>Cmd = Some \<lparr>Process = Some \<lparr>Pid = 4242\<rparr>, ProcessState = None\<rparr>, Connection = None,
           ErrorChannel = Some (make_chan 0)\<rparr>,
      [GetLanguageJSONFilePath ''ruby'', ReadFileContents ''/plugins/ruby/ruby.json'',
       ExecuteCommandWithEnv [''ruby'', ''run.rb''] ''/plugins/ruby''
         [''PATH=/bin'', ''GAUGE_INTERNAL_PORT=7777''],
       Go KillWatcher, Go ExitWatcher])"
    by (rule ruby_startRunner) (simp_all add: ruby_world_def)
  then show ?thesis by (simp add: make_chan_def)
qed

text \<open>
  Claim C6. In every run of \<open>StartRunnerAndMakeConnection\<close>, a spawn of the runner
  process comes only after the listener has been bound, the descriptor file found, read
  and parsed, and the compatibility check passed: the events before the spawn are the
  listener, the search for the descriptor and its reading, in this order. When the
  listener, the descriptor or the compatibility check fails, the call returns an error
  and its events hold no spawn.
\<close>

theorem no_spawn_before_checks:
  assumes "port = (case GetPortFromEnvironmentVariable_ret w of Inl err \<Rightarrow> 0 | Inr port \<Rightarrow> port)"
  shows "(ExecuteCommandWithEnv command dir env \<in> set (snd (StartRunnerAndMakeConnection manifest w)) \<longrightarrow>
           (\<exists>n path contents r rest.
              NewGaugeConnectionHandler_ret w port = Inr n \<and>
              GetLanguageJSONFilePath_ret w (Language manifest) = Inr path \<and>
              ReadFileContents_ret w path = Inr contents \<and>
              Unmarshal_ret w contents = Inr r \<and>
              CheckCompatibility_ret w (CurrentGaugeVersion w) (GaugeVersionSupport r) = None \<and>
              snd (StartRunnerAndMakeConnection manifest w) =
                [NewGaugeConnectionHandler port, GetLanguageJSONFilePath (Language manifest),
                 ReadFileContents path, ExecuteCommandWithEnv command dir env] @ rest))
       \<and> (NewGaugeConnectionHandler_ret w port = Inl e \<longrightarrow>
            StartRunnerAndMakeConnection manifest w = (Return (Inl e), [NewGaugeConnectionHandler port]))
       \<and> (NewGaugeConnectionHandler_ret w port = Inr n \<and>
          getLanguageJSONFilePath manifest w = (Inl e, evs) \<longrightarrow>
            StartRunnerAndMakeConnection manifest w =
              (Return (Inl e), NewGaugeConnectionHandler port # evs)
            \<and> (\<forall>c d v. ExecuteCommandWithEnv c d v \<notin> set (NewGaugeConnectionHandler port # evs)))
       \<and> (NewGaugeConnectionHandler_ret w port = Inr n \<and>
          getLanguageJSONFilePath manifest w = (Inr (runnerDir, r), evs) \<and>
          CheckCompatibility_ret w (CurrentGaugeVersion w) (GaugeVersionSupport r) = Some compatibilityErr \<longrightarrow>
            (\<exists>err. StartRunnerAndMakeConnection manifest w =
               (Return (Inl err), NewGaugeConnectionHandler port # evs))
            \<and> (\<forall>c d v. ExecuteCommandWithEnv c d v \<notin> set (NewGaugeConnectionHandler port # evs)))"
proof (intro conjI impI)
  assume sp: "ExecuteCommandWithEnv command dir env \<in> set (snd (StartRunnerAndMakeConnection manifest w))"
  from Start_spawn [OF sp, folded assms] obtain n tail where
    l: "NewGaugeConnectionHandler_ret w port = Inr n"
    and t: "snd (StartRunnerAndMakeConnection manifest w) =
             NewGaugeConnectionHandler port # snd (startRunner manifest (Itoa n) w) @ tail"
    and s: "ExecuteCommandWithEnv command dir env \<in> set (snd (startRunner manifest (Itoa n) w))"
    by blast
  from startRunner_spawn [OF s] obtain r evs0 rest where
    g: "getLanguageJSONFilePath manifest w = (Inr (dir, r), evs0)"
    and c: "CheckCompatibility_ret w (CurrentGaugeVersion w) (GaugeVersionSupport r) = None"
    and e: "snd (startRunner manifest (Itoa n) w) = evs0 @ ExecuteCommandWithEnv command dir env # rest"
    by blast
  from getLanguageJSONFilePath_Inr [OF g] obtain path contents where
    p: "GetLanguageJSONFilePath_ret w (Language manifest) = Inr path"
    "ReadFileContents_ret w path = Inr contents" "Unmarshal_ret w contents = Inr r"
    and evs0: "evs0 = [GetLanguageJSONFilePath (Language manifest), ReadFileContents path]"
    by blast
  have "snd (StartRunnerAndMakeConnection manifest w) =
      [NewGaugeConnectionHandler port, GetLanguageJSONFilePath (Language manifest),
       ReadFileContents path, ExecuteCommandWithEnv command dir env] @ (rest @ tail)"
    by (simp add: t e evs0)
  with l p c show "\<exists>n path contents r rest.
      NewGaugeConnectionHandler_ret w port = Inr n \<and>
      GetLanguageJSONFilePath_ret w (Language manifest) = Inr path \<and>
      ReadFileContents_ret w path = Inr contents \<and>
      Unmarshal_ret w contents = Inr r \<and>
      CheckCompatibility_ret w (CurrentGaugeVersion w) (GaugeVersionSupport r) = None \<and>
      snd (StartRunnerAndMakeConnection manifest w) =
        [NewGaugeConnectionHandler port, GetLanguageJSONFilePath (Language manifest),
         ReadFileContents path, ExecuteCommandWithEnv command dir env] @ rest"
    by blast
next
  assume "NewGaugeConnectionHandler_ret w port = Inl e"
  then show "StartRunnerAndMakeConnection manifest w = (Return (Inl e), [NewGaugeConnectionHandler port])"
    unfolding assms by (rule Start_listener_error)
next
  assume a: "NewGaugeConnectionHandler_ret w port = Inr n \<and>
          getLanguageJSONFilePath manifest w = (Inl e, evs)"
  then have s: "startRunner manifest (Itoa n) w = (Inl e, evs)"
    by (simp add: startRunner_descriptor_error)
  from a Start_runner_error [OF _ s, folded assms]
  show "StartRunnerAndMakeConnection manifest w = (Return (Inl e), NewGaugeConnectionHandler port # evs)"
    by simp
  from a getLanguageJSONFilePath_no_spawn [of manifest w "Inl e" evs]
  show "\<forall>c d v. ExecuteCommandWithEnv c d v \<notin> set (NewGaugeConnectionHandler port # evs)"
    by simp
next
  assume a: "NewGaugeConnectionHandler_ret w port = Inr n \<and>
          getLanguageJSONFilePath manifest w = (Inr (runnerDir, r), evs) \<and>
          CheckCompatibility_ret w (CurrentGaugeVersion w) (GaugeVersionSupport r) = Some compatibilityErr"
  then obtain err where s: "startRunner manifest (Itoa n) w = (Inl err, evs)"
    using startRunner_incompatible [of manifest w runnerDir r evs compatibilityErr "Itoa n"] by blast
  from a Start_runner_error [OF _ s, folded assms]
  show "\<exists>err. StartRunnerAndMakeConnection manifest w =
               (Return (Inl err), NewGaugeConnectionHandler port # evs)"
    by blast
  from a getLanguageJSONFilePath_no_spawn [of manifest w "Inr (runnerDir, r)" evs]
  show "\<forall>c d v. ExecuteCommandWithEnv c d v \<notin> set (NewGaugeConnectionHandler port # evs)"
    by simp
qed

lemma ruby_incompatible:
  "startRunner ruby_manifest ''7777''
     (ruby_world\<lparr>CheckCompatibility_ret := (\<lambda>current support. Some ''incompatible'')\<rparr>) =
     (Inl ''Compatible runner version to 1.0.0 not found. To update plugin, run `gauge --update {pluginName}`.'',
      [GetLanguageJSONFilePath ''ruby'', ReadFileContents ''/plugins/ruby/ruby.json''])"
proof -
  define w where "w = ruby_world\<lparr>CheckCompatibility_ret := (\<lambda>current support. Some ''incompatible'')\<rparr>"
  have g: "getLanguageJSONFilePath ruby_manifest w =
     (Inr (''/plugins/ruby'', ruby_runner),
      [GetLanguageJSONFilePath ''ruby'', ReadFileContents ''/plugins/ruby/ruby.json''])"
    by (rule ruby_descriptor) (simp_all add: w_def)
  have c: "CheckCompatibility_ret w (CurrentGaugeVersion w) (GaugeVersionSupport ruby_runner) =
      Some ''incompatible''"
    by (simp add: w_def)
  have v: "CurrentGaugeVersion w = ''1.0.0''"
    by (simp add: w_def ruby_world_def)
  from startRunner_incompatible [OF g c, of "''7777''"] show ?thesis
    unfolding w_def [symmetric] by (simp add: v)
qed

theorem no_spawn_before_checks_witness:
  "StartRunnerAndMakeConnection ruby_manifest ruby_world =
     (Return (Inr \<lparr>Cmd = Some \<lparr>Process = Some \<lparr>Pid = 4242\<rparr>, ProcessState = None\<rparr>,
                   Connection = Some 1, ErrorChannel = Some (make_chan 0)\<rparr>),
      [NewGaugeConnectionHandler 0, GetLanguageJSONFilePath ''ruby'',
       ReadFileContents ''/plugins/ruby/ruby.json'',
       ExecuteCommandWithEnv [''ruby'', ''run.rb''] ''/plugins/ruby''
         [''PATH=/bin'', ''GAUGE_INTERNAL_PORT=7777''],
       Go KillWatcher, Go ExitWatcher, AcceptConnection])
   \<and> CheckCompatibility_ret ruby_world (CurrentGaugeVersion ruby_world)
        (GaugeVersionSupport ruby_runner) = None
   \<and> (\<exists>err. StartRunnerAndMakeConnection ruby_manifest
         (ruby_world\<lparr>CheckCompatibility_ret := (\<lambda>current support. Some ''incompatible'')\<rparr>) =
         (Return (Inl err),
          [NewGaugeConnectionHandler 0, GetLanguageJSONFilePath ''ruby'',
           ReadFileContents ''/plugins/ruby/ruby.json'']))"
proof -
  define w where "w = ruby_world\<lparr>CheckCompatibility_ret := (\<lambda>current support. Some ''incompatible'')\<rparr>"
  have port: "(0::int) = (case GetPortFromEnvironmentVariable_ret w of Inl err \<Rightarrow> 0 | Inr port \<Rightarrow> port)"
    by (simp add: w_def ruby_world_def)
  have listener: "NewGaugeConnectionHandler_ret w 0 = Inr 7777"
    by (simp add: w_def ruby_world_def)
  have g: "getLanguageJSONFilePath ruby_manifest w =
     (Inr (''/plugins/ruby'', ruby_runner),
      [GetLanguageJSONFilePath ''ruby'', ReadFileContents ''/plugins/ruby/ruby.json''])"
    by (rule ruby_descriptor) (simp_all add: w_def)
  have c: "CheckCompatibility_ret w (CurrentGaugeVersion w) (GaugeVersionSupport ruby_runner) =
      Some ''incompatible''"
    by (simp add: w_def)
  from no_spawn_before_checks [OF port, where manifest = ruby_manifest and n = 7777
      and runnerDir = "''/plugins/ruby''" and r = ruby_runner
      and evs = "[GetLanguageJSONFilePath ''ruby'', ReadFileContents ''/plugins/ruby/ruby.json'']"
      and compatibilityErr = "''incompatible''"] listener g c
  have failing: "\<exists>err. StartRunnerAndMakeConnection ruby_manifest w =
         (Return (Inl err),
          [NewGaugeConnectionHandler 0, GetLanguageJSONFilePath ''ruby'',
           ReadFileContents ''/plugins/ruby/ruby.json''])"
    by simp
  have port': "NewGaugeConnectionHandler_ret ruby_world
     (case GetPortFromEnvironmentVariable_ret ruby_world of Inl err \<Rightarrow> 0 | Inr port \<Rightarrow> port) = Inr 7777"
    by (simp add: ruby_world_def)
  have started: "startRunner ruby_manifest (Itoa 7777) ruby_world =
     (Inr \<lparr>Cmd = Some \<lparr>Process = Some \<lparr>Pid = 4242\<rparr>, ProcessState = None\<rparr>, Connection = None,
           ErrorChannel = Some (make_chan 0)\<rparr>,
      [GetLanguageJSONFilePath ''ruby'', ReadFileContents ''/plugins/ruby/ruby.json'',
       ExecuteCommandWithEnv [''ruby'', ''run.rb''] ''/plugins/ruby''
         [''PATH=/bin'', ''GAUGE_INTERNAL_PORT=7777''],
       Go KillWatcher, Go ExitWatcher])"
    unfolding Itoa_7777 by (rule ruby_startRunner) (simp_all add: ruby_world_def)
  have accept: "AcceptConnection_ret ruby_world = (Some 1, None)"
    by (simp add: ruby_world_def)
  from Start_connected [OF port' started accept]
  have passing: "StartRunnerAndMakeConnection ruby_manifest ruby_world =
     (Return (Inr \<lparr>Cmd = Some \<lparr>Process = Some \<lparr>Pid = 4242\<rparr>, ProcessState = None\<rparr>,
                   Connection = Some 1, ErrorChannel = Some (make_chan 0)\<rparr>),
      [NewGaugeConnectionHandler 0, GetLanguageJSONFilePath ''ruby'',
       ReadFileContents ''/plugins/ruby/ruby.json'',
       ExecuteCommandWithEnv [''ruby'', ''run.rb''] ''/plugins/ruby''
         [''PATH=/bin'', ''GAUGE_INTERNAL_PORT=7777''],
       Go KillWatcher, Go ExitWatcher, AcceptConnection])"
    by (simp add: ruby_world_def)
  have "CheckCompatibility_ret ruby_world (CurrentGaugeVersion ruby_world)
        (GaugeVersionSupport ruby_runner) = None"
    by (simp add: ruby_world_def)
  with passing failing show ?thesis
    unfolding w_def by simp
qed

text \<open>
  Claim C7, as the code has it. For every descriptor that fails the compatibility check,
  \<open>startRunner\<close> returns, with no process spawned, an error whose message is a fixed
  text around the current Gauge version: it names that version and the update action
  \<open>gauge --update {pluginName}\<close>, with the placeholder as it stands. The message
  does not depend on the descriptor.
\<close>

theorem incompatible_runner_message:
  assumes "getLanguageJSONFilePath manifest w = (Inr (runnerDir, r), evs)"
    and "CheckCompatibility_ret w (CurrentGaugeVersion w) (GaugeVersionSupport r) = Some compatibilityErr"
  shows "startRunner manifest port w =
           (Inl (''Compatible runner version to '' @ CurrentGaugeVersion w @
                 '' not found. To update plugin, run `gauge --update {pluginName}`.''), evs)
         \<and> sublist (CurrentGaugeVersion w)
             (''Compatible runner version to '' @ CurrentGaugeVersion w @
              '' not found. To update plugin, run `gauge --update {pluginName}`.'')
         \<and> sublist ''gauge --update {pluginName}''
             (''Compatible runner version to '' @ CurrentGaugeVersion w @
              '' not found. To update plugin, run `gauge --update {pluginName}`.'')
         \<and> (\<forall>c d v. ExecuteCommandWithEnv c d v \<notin> set evs)"
proof (intro conjI)
  show "startRunner manifest port w =
           (Inl (''Compatible runner version to '' @ CurrentGaugeVersion w @
                 '' not found. To update plugin, run `gauge --update {pluginName}`.''), evs)"
    using assms by (rule startRunner_incompatible)
  show "sublist (CurrentGaugeVersion w)
             (''Compatible runner version to '' @ CurrentGaugeVersion w @
              '' not found. To update plugin, run `gauge --update {pluginName}`.'')"
    by (rule sublist_appendI)
  have "sublist ''gauge --update {pluginName}''
      ((''Compatible runner version to '' @ CurrentGaugeVersion w @
        '' not found. To update plugin, run `'') @ ''gauge --update {pluginName}'' @ ''`.'')"
    by (rule sublist_appendI)
  then show "sublist ''gauge --update {pluginName}''
             (''Compatible runner version to '' @ CurrentGaugeVersion w @
              '' not found. To update plugin, run `gauge --update {pluginName}`.'')"
    by simp
  show "\<forall>c d v. ExecuteCommandWithEnv c d v \<notin> set evs"
    using getLanguageJSONFilePath_no_spawn [OF assms(1)] by simp
qed

theorem incompatible_runner_message_witness:
  "startRunner ruby_manifest ''7777''
     (ruby_world\<lparr>CheckCompatibility_ret := (\<lambda>current support. Some ''incompatible'')\<rparr>) =
     (Inl ''Compatible runner version to 1.0.0 not found. To update plugin, run `gauge --update {pluginName}`.'',
      [GetLanguageJSONFilePath ''ruby'', ReadFileContents ''/plugins/ruby/ruby.json''])"
proof -
  define w where "w = ruby_world\<lparr>CheckCompatibility_ret := (\<lambda>current support. Some ''incompatible'')\<rparr>"
  have g: "getLanguageJSONFilePath ruby_manifest w =
     (Inr (''/plugins/ruby'', ruby_runner),
      [GetLanguageJSONFilePath ''ruby'', ReadFileContents ''/plugins/ruby/ruby.json''])"
    by (rule ruby_descriptor) (simp_all add: w_def)
  have c: "CheckCompatibility_ret w (CurrentGaugeVersion w) (GaugeVersionSupport ruby_runner) =
      Some ''incompatible''"
    by (simp add: w_def)
  have v: "CurrentGaugeVersion w = ''1.0.0''"
    by (simp add: w_def ruby_world_def)
  from incompatible_runner_message [OF g c, of "''7777''"] show ?thesis
    unfolding w_def [symmetric] by (simp add: v)
qed

text \<open>
  Claim C7 as it is written fails: the descriptor of the example is named ruby, its
  compatibility check fails, and the message of the error that \<open>startRunner\<close> returns
  does not hold the name.
\<close>

theorem incompatible_runner_message_counterexample:
  "Name ruby_runner = ''ruby'' \<and> Id_r ruby_runner = ''ruby''
   \<and> fst (startRunner ruby_manifest ''7777''
        (ruby_world\<lparr>CheckCompatibility_ret := (\<lambda>current support. Some ''incompatible'')\<rparr>)) =
     Inl ''Compatible runner version to 1.0.0 not found. To update plugin, run `gauge --update {pluginName}`.''
   \<and> \<not> sublist ''ruby''
        ''Compatible runner version to 1.0.0 not found. To update plugin, run `gauge --update {pluginName}`.''"
proof -
  have "\<not> sublist ''ruby''
        ''Compatible runner version to 1.0.0 not found. To update plugin, run `gauge --update {pluginName}`.''"
    by (simp add: sublist_code)
  then show ?thesis
    by (simp add: ruby_incompatible ruby_runner_def)
qed






end
